theory Spec2Isabelle
  imports Main "HOL-Library.Word"
begin

unbundle bit_operations_syntax

section \<open>Data model\<close>

text \<open>
  The embedding follows \<^verbatim>\<open>src/kerberos_sspi.c\<close> (the engine) and
  \<^verbatim>\<open>src/winkerberos.c\<close> (the Python binding). Buffers of \<^verbatim>\<open>SEC_CHAR\<close> are
  lists of bytes, wide strings are lists of 16-bit code units, a \<^verbatim>\<open>ULONG\<close> or
  \<^verbatim>\<open>LONG\<close> is a 32-bit word (the Windows data model), a \<^verbatim>\<open>SIZE_T\<close> is 64 bits wide.
  The opaque handles \<^verbatim>\<open>CredHandle\<close> and \<^verbatim>\<open>CtxtHandle\<close> are natural numbers.
  A C pointer that may be \<^verbatim>\<open>NULL\<close> is an \<open>option\<close>.
\<close>

type_synonym SEC_CHAR = "8 word"
type_synonym WCHAR = "16 word"
type_synonym ULONG = "32 word"
type_synonym LONG = "32 word"
type_synonym SECURITY_STATUS = int
type_synonym handle = nat

text \<open>A \<^verbatim>\<open>char\<close> literal as bytes, a wide literal as code units.\<close>

definition cstr :: "string \<Rightarrow> SEC_CHAR list" where
  "cstr s = map of_char s"

definition wstr :: "string \<Rightarrow> WCHAR list" where
  "wstr s = map of_char s"

text \<open>
  Constants of the headers, none of which is under \<^verbatim>\<open>src/\<close>: the result codes of
  \<^verbatim>\<open>kerberos_sspi.h\<close> and the values of the Windows SDK (\<^verbatim>\<open>sspi.h\<close>,
  \<^verbatim>\<open>winerror.h\<close>, \<^verbatim>\<open>limits.h\<close>).
\<close>

definition AUTH_GSS_ERROR :: int where "AUTH_GSS_ERROR = -1"
definition AUTH_GSS_COMPLETE :: int where "AUTH_GSS_COMPLETE = 1"
definition AUTH_GSS_CONTINUE :: int where "AUTH_GSS_CONTINUE = 0"
definition SEC_E_OK :: SECURITY_STATUS where "SEC_E_OK = 0"
definition SEC_I_CONTINUE_NEEDED :: SECURITY_STATUS where "SEC_I_CONTINUE_NEEDED = 0x00090312"
definition SECQOP_WRAP_NO_ENCRYPT :: ULONG where "SECQOP_WRAP_NO_ENCRYPT = 0x80000001"
definition ISC_REQ_ALLOCATE_MEMORY :: ULONG where "ISC_REQ_ALLOCATE_MEMORY = 0x00000100"
definition ULONG_MAX :: nat where "ULONG_MAX = 4294967295"
definition INT_MAX :: int where "INT_MAX = 2147483647"

text \<open>
  The Python error indicator. \<^verbatim>\<open>set_krberror\<close> raises \<^verbatim>\<open>KrbError\<close> with the name of
  the failed call and the text the system has for the status (kept here as the status);
  \<^verbatim>\<open>set_uninitialized_context\<close> raises \<^verbatim>\<open>KrbError\<close> with a fixed text;
  \<^verbatim>\<open>set_gsserror\<close> raises \<^verbatim>\<open>GSSError\<close>. \<open>InterpreterError\<close> stands for an
  error that a function of the interpreter has set itself.
\<close>

datatype pyerr =
    MemoryError
  | ValueError string
  | TypeError string
  | KrbError string SECURITY_STATUS
  | KrbError_uninitialized_context
  | GSSError string int
  | InterpreterError

record SecPkgContext_Sizes =
  cbMaxToken :: ULONG
  cbMaxSignature :: ULONG
  cbBlockSize :: ULONG
  cbSecurityTrailer :: ULONG

text \<open>
  The arguments of the call
  \<^verbatim>\<open>auth_sspi_client_init(service, (ULONG)flags, user, (ULONG)ulen, domain, (ULONG)dlen,
  password, (ULONG)plen, mechoid, state)\<close> in \<^verbatim>\<open>sspi_client_init\<close>.
\<close>

record init_call =
  arg_service :: "WCHAR list option"
  arg_flags :: ULONG
  arg_user :: "WCHAR list option"
  arg_ulen :: ULONG
  arg_domain :: "WCHAR list option"
  arg_dlen :: ULONG
  arg_password :: "WCHAR list option"
  arg_plen :: ULONG
  arg_mechoid :: "WCHAR list"

text \<open>
  What an operation does to the outside: the calls to the security provider with their
  arguments, the buffers of the state that \<^verbatim>\<open>destroy\<close> hands to \<^verbatim>\<open>free\<close>, and, in
  the binding's \<^verbatim>\<open>sspi_client_init\<close>, the argument conversions, the allocation of the
  state, the creation of the context object and the call of the engine.
  \<open>Call_EncryptMessage h qop n d m\<close> is the call on context \<open>h\<close> with \<open>fQOP = qop\<close>, a
  token buffer of \<open>n\<close> bytes, the data buffer \<open>d\<close> and a padding buffer of \<open>m\<close> bytes.
\<close>

datatype event =
    Call_AcquireCredentialsHandle "WCHAR list option"
  | Call_DeleteSecurityContext handle
  | Call_FreeCredentialsHandle handle
  | Call_InitializeSecurityContext handle "handle option" "SEC_CHAR list option" ULONG
      "SEC_CHAR list option"
  | Call_QueryContextAttributes_NAMES handle
  | Call_QueryContextAttributes_SIZES handle
  | Call_EncryptMessage handle ULONG nat "SEC_CHAR list" nat
  | Call_DecryptMessage handle "SEC_CHAR list"
  | Call_ImpersonateSecurityContext handle
  | Call_RevertSecurityContext handle
  | Free_buffer string
  | Convert_argument string
  | Allocate_state
  | New_context_object
  | Call_auth_sspi_client_init init_call

text \<open>
  \<^verbatim>\<open>sspi_client_state\<close> (declared in \<^verbatim>\<open>kerberos_sspi.h\<close>), with the fields the two
  files use. \<^verbatim>\<open>haveCred\<close> and \<^verbatim>\<open>haveCtx\<close> only ever hold 0 or 1 and are only
  tested for truth.
\<close>

record sspi_client_state =
  cred :: handle
  ctx :: handle
  spn :: "SEC_CHAR list option"
  response :: "SEC_CHAR list option"
  username :: "SEC_CHAR list option"
  flags :: ULONG
  haveCred :: bool
  haveCtx :: bool
  qop :: ULONG

text \<open>
  The environment of the engine: the security provider, the codec of
  \<^verbatim>\<open>base64.c\<close> and the allocator. Each provider function gives the status and what the
  call leaves in its output parameters.
  \<^item> \<open>InitializeSecurityContext\<close>: credential, existing context (absent on the first
    call), target name, flags, input token (absent on the first call); gives the status,
    the context handle written to \<^verbatim>\<open>state->ctx\<close> and the output token.
  \<^item> \<open>EncryptMessage\<close>: context, \<^verbatim>\<open>fQOP\<close>, size of the token buffer, the data buffer,
    size of the padding buffer; gives the status and the three buffers as the provider
    leaves them, each as long as its \<^verbatim>\<open>cbBuffer\<close> then says.
  \<^item> \<open>DecryptMessage\<close>: context and the stream buffer; gives the status, the data buffer
    and the quality of protection the provider would report through \<^verbatim>\<open>pfQOP\<close>.
  \<^item> \<open>ImpersonateSecurityContext\<close> and \<open>RevertSecurityContext\<close>: context; give the
    status.
  \<^item> \<open>base64_decode\<close> gives the decoded bytes (their length is the reported length);
    \<open>base64_encode\<close> gives a new string, or \<^verbatim>\<open>NULL\<close>.
  \<^item> \<open>malloc_ok v\<close> says whether the allocation made for the variable \<open>v\<close> succeeds.
\<close>

record env =
  InitializeSecurityContext :: "handle \<Rightarrow> handle option \<Rightarrow> SEC_CHAR list option \<Rightarrow> ULONG \<Rightarrow>
      SEC_CHAR list option \<Rightarrow> SECURITY_STATUS \<times> handle \<times> SEC_CHAR list"
  QueryContextAttributes_NAMES :: "handle \<Rightarrow> SECURITY_STATUS \<times> SEC_CHAR list"
  QueryContextAttributes_SIZES :: "handle \<Rightarrow> SECURITY_STATUS \<times> SecPkgContext_Sizes"
  EncryptMessage :: "handle \<Rightarrow> ULONG \<Rightarrow> nat \<Rightarrow> SEC_CHAR list \<Rightarrow> nat \<Rightarrow>
      SECURITY_STATUS \<times> SEC_CHAR list \<times> SEC_CHAR list \<times> SEC_CHAR list"
  DecryptMessage :: "handle \<Rightarrow> SEC_CHAR list \<Rightarrow> SECURITY_STATUS \<times> SEC_CHAR list \<times> ULONG"
  ImpersonateSecurityContext :: "handle \<Rightarrow> SECURITY_STATUS"
  RevertSecurityContext :: "handle \<Rightarrow> SECURITY_STATUS"
  base64_encode :: "SEC_CHAR list \<Rightarrow> SEC_CHAR list option"
  base64_decode :: "SEC_CHAR list \<Rightarrow> SEC_CHAR list"
  malloc_ok :: "string \<Rightarrow> bool"

text \<open>
  What an engine function returns: its \<^verbatim>\<open>INT\<close> result, the state it leaves (of the
  client or of the server), the Python
  error it has set (if any) and the events in the order they happened.
\<close>

record 'st outcome =
  ret :: int
  st :: 'st
  raised :: "pyerr option"
  calls :: "event list"

section \<open>The engine: \<^verbatim>\<open>kerberos_sspi.c\<close>\<close>

subsection \<open>\<^verbatim>\<open>destroy_sspi_client_state\<close>\<close>

definition destroy_sspi_client_state :: "sspi_client_state \<Rightarrow> sspi_client_state \<times> event list" where
  "destroy_sspi_client_state state0 =
     (let (state1, e1) =
            (if haveCtx state0
             then (state0\<lparr>haveCtx := False\<rparr>, [Call_DeleteSecurityContext (ctx state0)])
             else (state0, []));
          (state2, e2) =
            (if haveCred state1
             then (state1\<lparr>haveCred := False\<rparr>, [Call_FreeCredentialsHandle (cred state1)])
             else (state1, []));
          (state3, e3) =
            (if spn state2 \<noteq> None
             then (state2\<lparr>spn := None\<rparr>, [Free_buffer ''spn''])
             else (state2, []));
          (state4, e4) =
            (if response state3 \<noteq> None
             then (state3\<lparr>response := None\<rparr>, [Free_buffer ''response''])
             else (state3, []));
          (state5, e5) =
            (if username state4 \<noteq> None
             then (state4\<lparr>username := None\<rparr>, [Free_buffer ''username''])
             else (state4, []))
      in (state5, e1 @ e2 @ e3 @ e4 @ e5))"

text \<open>\<open>destroy_times n\<close> calls destroy \<open>n\<close> times in a row and collects the events.\<close>

fun destroy_times :: "nat \<Rightarrow> sspi_client_state \<Rightarrow> sspi_client_state \<times> event list" where
  "destroy_times 0 state = (state, [])"
| "destroy_times (Suc n) state =
     (let (state1, e1) = destroy_sspi_client_state state;
          (state2, e2) = destroy_times n state1
      in (state2, e1 @ e2))"

subsection \<open>\<^verbatim>\<open>auth_sspi_client_step\<close>\<close>

text \<open>
  A length stored into a \<^verbatim>\<open>cbBuffer\<close> is cast to \<^verbatim>\<open>ULONG\<close>: the provider sees the
  first \<open>length xs mod 2 ^ 32\<close> bytes of the buffer.
\<close>

definition ULONG_buffer :: "SEC_CHAR list \<Rightarrow> SEC_CHAR list" where
  "ULONG_buffer xs = take (length xs mod 2 ^ 32) xs"

definition auth_sspi_client_step :: "env \<Rightarrow> sspi_client_state \<Rightarrow> SEC_CHAR list \<Rightarrow> sspi_client_state outcome" where
  "auth_sspi_client_step E state0 challenge =
     (let state1 = state0\<lparr>response := None\<rparr>;
          inbuf = (if haveCtx state1 then Some (ULONG_buffer (base64_decode E challenge)) else None);
          oldctx = (if haveCtx state1 then Some (ctx state1) else None);
          req = ISC_REQ_ALLOCATE_MEMORY OR flags state1;
          c1 = Call_InitializeSecurityContext (cred state1) oldctx (spn state1) req inbuf;
          (status, newctx, outtok) =
            InitializeSecurityContext E (cred state1) oldctx (spn state1) req inbuf;
          state2 = state1\<lparr>ctx := newctx\<rparr>
      in if status \<noteq> SEC_E_OK \<and> status \<noteq> SEC_I_CONTINUE_NEEDED
         then \<lparr>ret = AUTH_GSS_ERROR, st = state2,
               raised = Some (KrbError ''InitializeSecurityContext'' status), calls = [c1]\<rparr>
         else
           let state3 = state2\<lparr>haveCtx := True\<rparr>;
               state4 = (if outtok \<noteq> [] then state3\<lparr>response := base64_encode E outtok\<rparr>
                         else state3)
           in if status = SEC_E_OK
              then
                let c2 = Call_QueryContextAttributes_NAMES (ctx state4);
                    (qstatus, sUserName) = QueryContextAttributes_NAMES E (ctx state4)
                in if qstatus \<noteq> SEC_E_OK
                   then \<lparr>ret = AUTH_GSS_ERROR, st = state4,
                         raised = Some (KrbError ''QueryContextAttributes'' qstatus),
                         calls = [c1, c2]\<rparr>
                   else if \<not> malloc_ok E ''username''
                   then \<lparr>ret = AUTH_GSS_ERROR, st = state4\<lparr>username := None\<rparr>,
                         raised = Some MemoryError, calls = [c1, c2]\<rparr>
                   else \<lparr>ret = AUTH_GSS_COMPLETE, st = state4\<lparr>username := Some sUserName\<rparr>,
                         raised = None, calls = [c1, c2]\<rparr>
              else \<lparr>ret = AUTH_GSS_CONTINUE, st = state4, raised = None, calls = [c1]\<rparr>)"

subsection \<open>\<^verbatim>\<open>auth_sspi_client_unwrap\<close>\<close>

text \<open>
  The source passes \<^verbatim>\<open>NULL\<close> for \<^verbatim>\<open>pfQOP\<close>: what the provider would report as the
  quality of protection (the third component) is not received.
\<close>

definition auth_sspi_client_unwrap :: "env \<Rightarrow> sspi_client_state \<Rightarrow> SEC_CHAR list \<Rightarrow> sspi_client_state outcome" where
  "auth_sspi_client_unwrap E state0 challenge =
     (let state1 = state0\<lparr>response := None\<rparr>
      in if \<not> haveCtx state1
         then \<lparr>ret = AUTH_GSS_ERROR, st = state1,
               raised = Some KrbError_uninitialized_context, calls = []\<rparr>
         else
           let stream = ULONG_buffer (base64_decode E challenge);
               c1 = Call_DecryptMessage (ctx state1) stream;
               (status, data, reported_qop) = DecryptMessage E (ctx state1) stream
           in if status = SEC_E_OK
              then \<lparr>ret = AUTH_GSS_COMPLETE,
                    st = (if data \<noteq> [] then state1\<lparr>response := base64_encode E data\<rparr>
                          else state1),
                    raised = None, calls = [c1]\<rparr>
              else \<lparr>ret = AUTH_GSS_ERROR, st = state1,
                    raised = Some (KrbError ''DecryptMessage'' status), calls = [c1]\<rparr>)"

subsection \<open>\<^verbatim>\<open>auth_sspi_client_wrap\<close>\<close>

text \<open>
  The function of the source has the three parameters \<^verbatim>\<open>state\<close>, \<^verbatim>\<open>data\<close> and
  \<^verbatim>\<open>user\<close>. \<^verbatim>\<open>outbufSize\<close> is a sum of three \<^verbatim>\<open>ULONG\<close>s and wraps at \<open>2 ^ 32\<close>;
  when it does, the three \<^verbatim>\<open>memcpy\<close> write past the end of \<^verbatim>\<open>outbuf\<close>: the result
  \<open>None\<close> stands for that undefined behaviour.
\<close>

definition auth_sspi_client_wrap ::
  "env \<Rightarrow> sspi_client_state \<Rightarrow> SEC_CHAR list \<Rightarrow> SEC_CHAR list option \<Rightarrow> sspi_client_state outcome option" where
  "auth_sspi_client_wrap E state0 data user =
     (let state1 = state0\<lparr>response := None\<rparr>
      in if \<not> haveCtx state1
         then Some \<lparr>ret = AUTH_GSS_ERROR, st = state1,
                    raised = Some KrbError_uninitialized_context, calls = []\<rparr>
         else
           let c1 = Call_QueryContextAttributes_SIZES (ctx state1);
               (qstatus, sizes) = QueryContextAttributes_SIZES E (ctx state1)
           in if qstatus \<noteq> SEC_E_OK
              then Some \<lparr>ret = AUTH_GSS_ERROR, st = state1,
                         raised = Some (KrbError ''QueryContextAttributes'' qstatus),
                         calls = [c1]\<rparr>
              else
                let plaintextMessage =
                      (case user of
                         Some u \<Rightarrow> [1, 0, 0, 0] @ u
                       | None \<Rightarrow> base64_decode E data)
                in if \<not> malloc_ok E ''inbuf''
                   then Some \<lparr>ret = AUTH_GSS_ERROR, st = state1,
                              raised = Some MemoryError, calls = [c1]\<rparr>
                   else
                     let trailer = unat (cbSecurityTrailer sizes);
                         padding = unat (cbBlockSize sizes);
                         message = ULONG_buffer plaintextMessage;
                         c2 = Call_EncryptMessage (ctx state1) SECQOP_WRAP_NO_ENCRYPT
                                trailer message padding;
                         (status, buf0, buf1, buf2) =
                           EncryptMessage E (ctx state1) SECQOP_WRAP_NO_ENCRYPT
                             trailer message padding
                     in if status \<noteq> SEC_E_OK
                        then Some \<lparr>ret = AUTH_GSS_ERROR, st = state1,
                                   raised = Some (KrbError ''EncryptMessage'' status),
                                   calls = [c1, c2]\<rparr>
                        else if \<not> malloc_ok E ''outbuf''
                        then Some \<lparr>ret = AUTH_GSS_ERROR, st = state1,
                                   raised = Some MemoryError, calls = [c1, c2]\<rparr>
                        else if 2 ^ 32 \<le> length buf0 + length buf1 + length buf2
                        then None
                        else Some \<lparr>ret = AUTH_GSS_COMPLETE,
                                   st = state1\<lparr>response := base64_encode E (buf0 @ buf1 @ buf2)\<rparr>,
                                   raised = None, calls = [c1, c2]\<rparr>)"

section \<open>The binding: \<^verbatim>\<open>winkerberos.c\<close>\<close>

text \<open>
  A function of the binding returns a \<^verbatim>\<open>PyObject*\<close> (\<^verbatim>\<open>NULL\<close> is \<open>None\<close>) and may
  leave the error indicator set. The inputs are the values that
  \<^verbatim>\<open>PyArg_ParseTuple\<close> has stored. A context object is a capsule around a pointer to
  the state (which may be \<^verbatim>\<open>NULL\<close>), or some other object. \<open>state_after\<close> is the
  state that the engine has left behind the context object, when the call has reached the
  engine (and, for init, when the context object survives); \<open>events\<close> are the events of
  the call.
\<close>

datatype pyval =
    PyInt int
  | PyTuple_result_context int sspi_client_state

datatype ctxobj = Capsule "sspi_client_state option" | Not_a_capsule

record 'st binding_outcome =
  retval :: "pyval option"
  pyerror :: "pyerr option"
  state_after :: "'st option"
  events :: "event list"

definition string_too_long :: "string \<Rightarrow> nat \<Rightarrow> pyerr option" where
  "string_too_long key len =
     (if len mod 2 ^ 64 > ULONG_MAX then Some (ValueError (key @ '' too large'')) else None)"

text \<open>
  \<^verbatim>\<open>sspi_client_wrap\<close> passes five arguments,
  \<^verbatim>\<open>auth_sspi_client_wrap(state, data, user, (ULONG)ulen, protect)\<close>; the function in
  \<^verbatim>\<open>kerberos_sspi.c\<close> takes the first three.
\<close>

definition sspi_client_wrap ::
  "env \<Rightarrow> ctxobj \<Rightarrow> SEC_CHAR list \<Rightarrow> SEC_CHAR list option \<Rightarrow> int \<Rightarrow> sspi_client_state binding_outcome option" where
  "sspi_client_wrap E pyctx data user protect =
     (let ulen = (case user of Some u \<Rightarrow> length u | None \<Rightarrow> 0)
      in case string_too_long ''data'' (length data) of
           Some e \<Rightarrow> Some \<lparr>retval = None, pyerror = Some e, state_after = None, events = []\<rparr>
         | None \<Rightarrow>
        (case string_too_long ''user'' (ulen + 4) of
           Some e \<Rightarrow> Some \<lparr>retval = None, pyerror = Some e, state_after = None, events = []\<rparr>
         | None \<Rightarrow>
        (case pyctx of
           Not_a_capsule \<Rightarrow>
             Some \<lparr>retval = None, pyerror = Some (TypeError ''Expected a context object''),
                   state_after = None, events = []\<rparr>
         | Capsule None \<Rightarrow>
             Some \<lparr>retval = None, pyerror = Some InterpreterError,
                   state_after = None, events = []\<rparr>
         | Capsule (Some state) \<Rightarrow>
             (case auth_sspi_client_wrap E state data user of
                None \<Rightarrow> None
              | Some out \<Rightarrow>
                  if ret out = AUTH_GSS_ERROR
                  then Some \<lparr>retval = None, pyerror = raised out,
                             state_after = Some (st out), events = calls out\<rparr>
                  else Some \<lparr>retval = Some (PyInt (ret out)), pyerror = raised out,
                             state_after = Some (st out), events = calls out\<rparr>))))"

definition sspi_client_unwrap :: "env \<Rightarrow> ctxobj \<Rightarrow> SEC_CHAR list \<Rightarrow> sspi_client_state binding_outcome" where
  "sspi_client_unwrap E pyctx challenge =
     (case string_too_long ''challenge'' (length challenge) of
        Some e \<Rightarrow> \<lparr>retval = None, pyerror = Some e, state_after = None, events = []\<rparr>
      | None \<Rightarrow>
     (case pyctx of
        Not_a_capsule \<Rightarrow>
          \<lparr>retval = None, pyerror = Some (TypeError ''Expected a context object''),
           state_after = None, events = []\<rparr>
      | Capsule None \<Rightarrow>
          \<lparr>retval = None, pyerror = Some InterpreterError, state_after = None, events = []\<rparr>
      | Capsule (Some state) \<Rightarrow>
          (let out = auth_sspi_client_unwrap E state challenge
           in if ret out = AUTH_GSS_ERROR
              then \<lparr>retval = None, pyerror = raised out,
                    state_after = Some (st out), events = calls out\<rparr>
              else \<lparr>retval = Some (PyInt (ret out)), pyerror = raised out,
                    state_after = Some (st out), events = calls out\<rparr>)))"

definition sspi_client_response_conf :: "ctxobj \<Rightarrow> sspi_client_state binding_outcome" where
  "sspi_client_response_conf pyctx =
     (case pyctx of
        Not_a_capsule \<Rightarrow>
          \<lparr>retval = None, pyerror = Some (TypeError ''Expected a context object''),
           state_after = None, events = []\<rparr>
      | Capsule None \<Rightarrow>
          \<lparr>retval = None, pyerror = Some InterpreterError, state_after = None, events = []\<rparr>
      | Capsule (Some state) \<Rightarrow>
          \<lparr>retval = Some (PyInt (if qop state \<noteq> SECQOP_WRAP_NO_ENCRYPT then 1 else 0)),
           pyerror = None, state_after = Some state, events = []\<rparr>)"

subsection \<open>Argument conversion\<close>

text \<open>
  The argument objects of \<^verbatim>\<open>sspi_client_init\<close> (Python 3): \<^verbatim>\<open>None\<close>, a \<^verbatim>\<open>str\<close>, an
  object with the buffer interface (given by the \<^verbatim>\<open>Py_buffer\<close> that
  \<^verbatim>\<open>PyObject_GetBuffer\<close> fills), a capsule around a \<^verbatim>\<open>WCHAR*\<close> (a mechanism OID) or
  an object of another type, given by its type name.
\<close>

record Py_buffer =
  view_buf :: "SEC_CHAR list option"
  view_len :: int
  view_itemsize :: int
  view_contiguous :: bool

datatype pyobj =
    Py_None
  | PyUnicode "WCHAR list"
  | PyBufferObject Py_buffer
  | PyCapsule "WCHAR list option"
  | PyOther string

fun tp_name :: "pyobj \<Rightarrow> string" where
  "tp_name Py_None = ''NoneType''"
| "tp_name (PyUnicode w) = ''str''"
| "tp_name (PyBufferObject v) = ''bytes''"
| "tp_name (PyCapsule p) = ''PyCapsule''"
| "tp_name (PyOther n) = n"

text \<open>
  The interpreter and the operating system, as far as \<^verbatim>\<open>sspi_client_init\<close> uses them.
  \<^item> \<open>PyUnicode_AsWideChar\<close> gives the code units copied, or \<open>None\<close> for the result -1.
  \<^item> \<open>MultiByteToWideChar\<close> gives the converted string; its result 0 is the empty list.
  \<^item> \<open>UrlUnescapeW\<close> gives the \<^verbatim>\<open>HRESULT\<close> and the string it leaves in place.
  \<^item> \<open>PyCapsule_New_ok\<close> says whether the context object can be created.
  \<^item> \<open>auth_sspi_client_init\<close> is the callee of the ten-argument call: the function of
    that name in \<^verbatim>\<open>kerberos_sspi.c\<close> has seven parameters of other types, so the callee
    is taken as given. It initialises the state and may call the provider.
\<close>

record host =
  PyUnicode_AsWideChar :: "WCHAR list \<Rightarrow> WCHAR list option"
  MultiByteToWideChar :: "SEC_CHAR list \<Rightarrow> WCHAR list"
  GetLastError :: int
  UrlUnescapeW :: "WCHAR list \<Rightarrow> int \<times> WCHAR list"
  PyCapsule_New_ok :: bool
  auth_sspi_client_init :: "init_call \<Rightarrow> sspi_client_state outcome"

definition S_OK :: int where "S_OK = 0"

definition GSS_MECH_OID_KRB5 :: "WCHAR list" where
  "GSS_MECH_OID_KRB5 = wstr ''Kerberos''"

text \<open>The string that the C library sees in a buffer: up to the first 0.\<close>

definition wcs :: "WCHAR list \<Rightarrow> WCHAR list" where
  "wcs buf = takeWhile (\<lambda>c. c \<noteq> 0) buf"

definition wcslen :: "WCHAR list \<Rightarrow> nat" where
  "wcslen buf = length (wcs buf)"

definition py_unicode_to_wchar ::
  "env \<Rightarrow> host \<Rightarrow> string \<Rightarrow> WCHAR list \<Rightarrow> pyerr + (WCHAR list option \<times> nat)" where
  "py_unicode_to_wchar E H var w =
     (let len = length w
      in if \<not> malloc_ok E var then Inl MemoryError
         else case PyUnicode_AsWideChar H w of
                None \<Rightarrow> Inl InterpreterError
              | Some copied \<Rightarrow>
                  let buf = take len copied
                  in if wcslen buf \<noteq> len then Inl (ValueError ''embedded null character'')
                     else Inr (Some buf, len))"

definition py_buffer_to_wchar ::
  "env \<Rightarrow> host \<Rightarrow> string \<Rightarrow> pyobj \<Rightarrow> pyerr + (WCHAR list option \<times> nat)" where
  "py_buffer_to_wchar E H var obj =
     (case obj of
        PyBufferObject view \<Rightarrow>
          if \<not> view_contiguous view then Inl (ValueError ''must be a contiguous buffer'')
          else (case view_buf view of
                  None \<Rightarrow> Inl (ValueError ''invalid buffer'')
                | Some b \<Rightarrow>
                    if view_len view < 0 then Inl (ValueError ''invalid buffer'')
                    else if view_itemsize view \<noteq> 1
                    then Inl (ValueError ''buffer data must be ascii or utf8'')
                    else if view_len view > INT_MAX then Inl (ValueError ''buffer too large'')
                    else if \<not> malloc_ok E var then Inl MemoryError
                    else
                      let outbuf = MultiByteToWideChar H (take (nat (view_len view)) b)
                      in if outbuf = []
                         then Inl (GSSError ''MultiByteToWideChar failed'' (GetLastError H))
                         else Inr (Some outbuf, length outbuf))
      | _ \<Rightarrow> Inl InterpreterError)"

definition BufferObject_AsWCHAR ::
  "env \<Rightarrow> host \<Rightarrow> string \<Rightarrow> pyobj \<Rightarrow> pyerr + (WCHAR list option \<times> nat)" where
  "BufferObject_AsWCHAR E H var arg =
     (case arg of
        Py_None \<Rightarrow> Inr (None, 0)
      | PyUnicode w \<Rightarrow> py_unicode_to_wchar E H var w
      | _ \<Rightarrow> py_buffer_to_wchar E H var arg)"

text \<open>
  The message \<^verbatim>\<open>"argument %d must be str%s, not %s"\<close>; the argument numbers in use
  are 1, 4 and 5, one decimal digit each.
\<close>

definition argument_type_error :: "nat \<Rightarrow> bool \<Rightarrow> pyobj \<Rightarrow> pyerr" where
  "argument_type_error argnum allow_none arg =
     TypeError (''argument '' @ [''0123456789'' ! argnum] @ '' must be str''
                @ (if allow_none then '' or None'' else [])
                @ '', not '' @ (if arg = Py_None then ''None'' else tp_name arg))"

definition StringObject_AsWCHAR ::
  "env \<Rightarrow> host \<Rightarrow> string \<Rightarrow> pyobj \<Rightarrow> nat \<Rightarrow> bool \<Rightarrow> pyerr + (WCHAR list option \<times> nat)" where
  "StringObject_AsWCHAR E H var arg argnum allow_none =
     (if arg = Py_None \<and> allow_none then Inr (None, 0)
      else case arg of
             PyUnicode w \<Rightarrow> py_unicode_to_wchar E H var w
           | _ \<Rightarrow> Inl (argument_type_error argnum allow_none arg))"

subsection \<open>\<^verbatim>\<open>sspi_client_init\<close>\<close>

text \<open>
  \<^verbatim>\<open>wcstok_s(str, L":", &next)\<close>: skips the delimiters at the front; with nothing left
  the result is \<^verbatim>\<open>NULL\<close>; else the token runs to the next delimiter (or the end),
  and \<^verbatim>\<open>next\<close> is what follows that delimiter. A second call on \<^verbatim>\<open>NULL\<close> goes on
  from \<^verbatim>\<open>next\<close>.
\<close>

definition wcstok_s :: "WCHAR list \<Rightarrow> WCHAR \<Rightarrow> (WCHAR list \<times> WCHAR list) option" where
  "wcstok_s str delim =
     (let start = dropWhile (\<lambda>c. c = delim) str
      in if start = [] then None
         else Some (takeWhile (\<lambda>c. c \<noteq> delim) start,
                    drop 1 (dropWhile (\<lambda>c. c \<noteq> delim) start)))"

definition colon :: WCHAR where "colon = 58"

text \<open>
  The block \<^verbatim>\<open>if (!user && principal) { ... }\<close>: from the converted \<^verbatim>\<open>principal\<close>,
  \<^verbatim>\<open>user\<close>, \<^verbatim>\<open>domain\<close> and \<^verbatim>\<open>password\<close> (each with its length) to the
  \<^verbatim>\<open>user\<close>, \<^verbatim>\<open>ulen\<close>, \<^verbatim>\<open>domain\<close>, \<^verbatim>\<open>dlen\<close>, \<^verbatim>\<open>password\<close>, \<^verbatim>\<open>plen\<close> that the
  rest of the function uses. \<^verbatim>\<open>dlen\<close> is not reset when \<^verbatim>\<open>domain\<close> is.
\<close>

type_synonym credentials =
  "WCHAR list option \<times> nat \<times> WCHAR list option \<times> nat \<times> WCHAR list option \<times> nat"

definition unescape_credentials ::
  "host \<Rightarrow> WCHAR list \<Rightarrow> WCHAR list option \<Rightarrow> nat \<Rightarrow> nat \<Rightarrow> pyerr + credentials" where
  "unescape_credentials H user password dlen plen =
     (let (res, user1) = UrlUnescapeW H user
      in if res \<noteq> S_OK then Inl (GSSError ''UrlUnescapeW'' res)
         else case password of
                Some pw \<Rightarrow>
                  (let (res2, pw1) = UrlUnescapeW H pw
                   in if res2 \<noteq> S_OK then Inl (GSSError ''UrlUnescapeW'' res2)
                      else Inr (Some (wcs user1), wcslen user1, None, dlen,
                                Some (wcs pw1), wcslen pw1))
              | None \<Rightarrow> Inr (Some (wcs user1), wcslen user1, None, dlen, None, plen))"

definition principal_credentials ::
  "env \<Rightarrow> host \<Rightarrow> WCHAR list option \<Rightarrow> credentials \<Rightarrow> pyerr + credentials" where
  "principal_credentials E H principal0 c =
     (case c of (user, ulen, domain, dlen, password, plen) \<Rightarrow>
        (case principal0 of
           None \<Rightarrow> Inr c
         | Some pbuf \<Rightarrow>
             if user \<noteq> None then Inr c
             else
               let p = wcs pbuf
               in if colon \<in> set p
                  then (case wcstok_s p colon of
                          None \<Rightarrow> Inl MemoryError
                        | Some (current, next) \<Rightarrow>
                            if \<not> malloc_ok E ''_wcsdup user'' then Inl MemoryError
                            else (case wcstok_s next colon of
                                    None \<Rightarrow> Inl MemoryError
                                  | Some (current2, next2) \<Rightarrow>
                                      if \<not> malloc_ok E ''_wcsdup password'' then Inl MemoryError
                                      else unescape_credentials H current (Some current2) dlen plen))
                  else if \<not> malloc_ok E ''_wcsdup user'' then Inl MemoryError
                  else unescape_credentials H p None dlen plen))"

text \<open>The arguments as \<^verbatim>\<open>PyArg_ParseTupleAndKeywords\<close> has stored them.\<close>

record init_args =
  serviceobj :: pyobj
  principalobj :: pyobj
  gssflags :: LONG
  userobj :: pyobj
  domainobj :: pyobj
  passwordobj :: pyobj
  mechoidobj :: pyobj

definition init_failure :: "event list \<Rightarrow> pyerr \<Rightarrow> sspi_client_state binding_outcome" where
  "init_failure evs e = \<lparr>retval = None, pyerror = Some e, state_after = None, events = evs\<rparr>"

text \<open>
  The part of \<^verbatim>\<open>sspi_client_init\<close> from \<^verbatim>\<open>if (mechoidobj != Py_None)\<close> on. When the
  engine reports an error, \<^verbatim>\<open>Py_DECREF(pyctx)\<close> runs the destructor of the capsule,
  \<^verbatim>\<open>destroy_sspi_client\<close>, which destroys the state.
\<close>

definition init_context ::
  "env \<Rightarrow> host \<Rightarrow> init_args \<Rightarrow> WCHAR list option \<Rightarrow> credentials \<Rightarrow> event list \<Rightarrow>
   sspi_client_state binding_outcome" where
  "init_context E H a service c evs =
     (case c of (user, ulen, domain, dlen, password, plen) \<Rightarrow>
        (case (case mechoidobj a of
                 Py_None \<Rightarrow> Inr GSS_MECH_OID_KRB5
               | PyCapsule None \<Rightarrow> Inl (TypeError ''Invalid value for mech_oid'')
               | PyCapsule (Some oid) \<Rightarrow> Inr oid
               | _ \<Rightarrow> Inl (TypeError ''Invalid type for mech_oid'')) of
           Inl e \<Rightarrow> init_failure evs e
         | Inr mechoid \<Rightarrow>
             if \<not> malloc_ok E ''state'' then init_failure (evs @ [Allocate_state]) MemoryError
             else if \<not> PyCapsule_New_ok H
             then init_failure (evs @ [Allocate_state, New_context_object]) InterpreterError
             else
               let call = \<lparr>arg_service = service, arg_flags = gssflags a,
                           arg_user = user, arg_ulen = of_nat ulen,
                           arg_domain = domain, arg_dlen = of_nat dlen,
                           arg_password = password, arg_plen = of_nat plen,
                           arg_mechoid = mechoid\<rparr>;
                   out = auth_sspi_client_init H call;
                   evs1 = evs @ [Allocate_state, New_context_object,
                                 Call_auth_sspi_client_init call] @ calls out
               in if ret out = AUTH_GSS_ERROR
                  then \<lparr>retval = None, pyerror = raised out, state_after = None,
                        events = evs1 @ snd (destroy_sspi_client_state (st out))\<rparr>
                  else \<lparr>retval = Some (PyTuple_result_context (ret out) (st out)),
                        pyerror = raised out, state_after = Some (st out),
                        events = evs1\<rparr>))"

definition sspi_client_init ::
  "env \<Rightarrow> host \<Rightarrow> init_args \<Rightarrow> sspi_client_state binding_outcome" where
  "sspi_client_init E H a =
     (if sint (gssflags a) < 0 then init_failure [] (ValueError ''gss_flags must be >= 0'')
      else
        let ev1 = [Convert_argument ''service''];
            ev2 = ev1 @ [Convert_argument ''principal''];
            ev3 = ev2 @ [Convert_argument ''user''];
            ev4 = ev3 @ [Convert_argument ''domain''];
            ev5 = ev4 @ [Convert_argument ''password'']
        in case StringObject_AsWCHAR E H ''service'' (serviceobj a) 1 False of
             Inl e \<Rightarrow> init_failure ev1 e
           | Inr (service, slen) \<Rightarrow>
          (case BufferObject_AsWCHAR E H ''principal'' (principalobj a) of
             Inl e \<Rightarrow> init_failure ev2 e
           | Inr (principal0, len) \<Rightarrow>
          (case StringObject_AsWCHAR E H ''user'' (userobj a) 4 True of
             Inl e \<Rightarrow> init_failure ev3 e
           | Inr (user, ulen) \<Rightarrow>
          (case StringObject_AsWCHAR E H ''domain'' (domainobj a) 5 True of
             Inl e \<Rightarrow> init_failure ev4 e
           | Inr (domain, dlen) \<Rightarrow>
          (case BufferObject_AsWCHAR E H ''password'' (passwordobj a) of
             Inl e \<Rightarrow> init_failure ev5 e
           | Inr (password, plen) \<Rightarrow>
          (case string_too_long ''user'' ulen of
             Some e \<Rightarrow> init_failure ev5 e
           | None \<Rightarrow>
          (case string_too_long ''domain'' dlen of
             Some e \<Rightarrow> init_failure ev5 e
           | None \<Rightarrow>
          (case string_too_long ''password'' plen of
             Some e \<Rightarrow> init_failure ev5 e
           | None \<Rightarrow>
          (case principal_credentials E H principal0
                  (user, ulen, domain, dlen, password, plen) of
             Inl e \<Rightarrow> init_failure ev5 e
           | Inr c \<Rightarrow> init_context E H a service c ev5)))))))))"

section \<open>The server: impersonate and revert\<close>

text \<open>
  Modelled from the spec: the declaration of \<^verbatim>\<open>sspi_server_state\<close> is not under
  \<^verbatim>\<open>src/\<close>. The spec's Server Context has a credential handle, a context handle, the
  last response, the authenticated user name and the target name; the handles follow the
  client's state.
\<close>

record sspi_server_state =
  srv_cred :: handle
  srv_ctx :: handle
  srv_haveCred :: bool
  srv_haveCtx :: bool
  srv_response :: "SEC_CHAR list option"
  srv_username :: "SEC_CHAR list option"
  srv_targetname :: "SEC_CHAR list option"

text \<open>
  Modelled from the spec: \<^verbatim>\<open>auth_sspi_server_impersonate\<close> is called by the binding but
  is not under \<^verbatim>\<open>src/\<close>. The spec (4.4): impersonate and revert delegate directly to the
  Security Provider, fail with \<open>ProviderError\<close> on the underlying failure and otherwise
  return success; both require the Established state, and a call before completion
  signals \<open>UninitializedContextError\<close>.
\<close>

definition auth_sspi_server_impersonate ::
  "env \<Rightarrow> sspi_server_state \<Rightarrow> sspi_server_state outcome" where
  "auth_sspi_server_impersonate E state =
     (if \<not> srv_haveCtx state
      then \<lparr>ret = AUTH_GSS_ERROR, st = state,
            raised = Some KrbError_uninitialized_context, calls = []\<rparr>
      else
        let status = ImpersonateSecurityContext E (srv_ctx state);
            c1 = Call_ImpersonateSecurityContext (srv_ctx state)
        in if status \<noteq> SEC_E_OK
           then \<lparr>ret = AUTH_GSS_ERROR, st = state,
                 raised = Some (KrbError ''ImpersonateSecurityContext'' status), calls = [c1]\<rparr>
           else \<lparr>ret = AUTH_GSS_COMPLETE, st = state, raised = None, calls = [c1]\<rparr>)"

text \<open>
  Modelled from the spec: \<^verbatim>\<open>auth_sspi_server_revert\<close> is called by the binding but is
  not under \<^verbatim>\<open>src/\<close>; the spec gives it the same rule as impersonate (4.4).
\<close>

definition auth_sspi_server_revert ::
  "env \<Rightarrow> sspi_server_state \<Rightarrow> sspi_server_state outcome" where
  "auth_sspi_server_revert E state =
     (if \<not> srv_haveCtx state
      then \<lparr>ret = AUTH_GSS_ERROR, st = state,
            raised = Some KrbError_uninitialized_context, calls = []\<rparr>
      else
        let status = RevertSecurityContext E (srv_ctx state);
            c1 = Call_RevertSecurityContext (srv_ctx state)
        in if status \<noteq> SEC_E_OK
           then \<lparr>ret = AUTH_GSS_ERROR, st = state,
                 raised = Some (KrbError ''RevertSecurityContext'' status), calls = [c1]\<rparr>
           else \<lparr>ret = AUTH_GSS_COMPLETE, st = state, raised = None, calls = [c1]\<rparr>)"

text \<open>
  The binding, from \<^verbatim>\<open>winkerberos.c\<close>: after the call of the engine both functions
  return \<^verbatim>\<open>Py_BuildValue("i", result)\<close>, whatever \<^verbatim>\<open>result\<close> is.
\<close>

datatype server_ctxobj = Server_capsule "sspi_server_state option" | Not_a_server_capsule

definition sspi_server_impersonate ::
  "env \<Rightarrow> server_ctxobj \<Rightarrow> sspi_server_state binding_outcome" where
  "sspi_server_impersonate E pyctx =
     (case pyctx of
        Not_a_server_capsule \<Rightarrow>
          \<lparr>retval = None, pyerror = Some (TypeError ''Expected a context object''),
           state_after = None, events = []\<rparr>
      | Server_capsule None \<Rightarrow>
          \<lparr>retval = None, pyerror = Some InterpreterError, state_after = None, events = []\<rparr>
      | Server_capsule (Some state) \<Rightarrow>
          (let out = auth_sspi_server_impersonate E state
           in \<lparr>retval = Some (PyInt (ret out)), pyerror = raised out,
               state_after = Some (st out), events = calls out\<rparr>))"

definition sspi_server_revert ::
  "env \<Rightarrow> server_ctxobj \<Rightarrow> sspi_server_state binding_outcome" where
  "sspi_server_revert E pyctx =
     (case pyctx of
        Not_a_server_capsule \<Rightarrow>
          \<lparr>retval = None, pyerror = Some (TypeError ''Expected a context object''),
           state_after = None, events = []\<rparr>
      | Server_capsule None \<Rightarrow>
          \<lparr>retval = None, pyerror = Some InterpreterError, state_after = None, events = []\<rparr>
      | Server_capsule (Some state) \<Rightarrow>
          (let out = auth_sspi_server_revert E state
           in \<lparr>retval = Some (PyInt (ret out)), pyerror = raised out,
               state_after = Some (st out), events = calls out\<rparr>))"

section \<open>A mock provider and sample contexts\<close>

text \<open>
  Concrete inputs for the examples. The mock provider asks for a second round on the
  first step and completes on the next, reports a security trailer of 16 bytes and a
  block size of 8, fills the token and padding buffers it is given, and decrypts by
  dropping the 16 bytes of the trailer, reporting the quality of protection 0
  (confidentiality). The mock codec is the identity; every allocation succeeds.
\<close>

definition mock_sizes :: SecPkgContext_Sizes where
  "mock_sizes = \<lparr>cbMaxToken = 12000, cbMaxSignature = 16, cbBlockSize = 8,
                  cbSecurityTrailer = 16\<rparr>"

definition mock_env :: env where
  "mock_env =
     \<lparr>InitializeSecurityContext =
        (\<lambda>c old target req inbuf.
           case old of
             None \<Rightarrow> (SEC_I_CONTINUE_NEEDED, 7, cstr ''T1'')
           | Some h \<Rightarrow> (SEC_E_OK, h, cstr ''T3'')),
      QueryContextAttributes_NAMES = (\<lambda>h. (SEC_E_OK, cstr ''u@REALM'')),
      QueryContextAttributes_SIZES = (\<lambda>h. (SEC_E_OK, mock_sizes)),
      EncryptMessage = (\<lambda>h q n d m. (SEC_E_OK, replicate n 170, d, replicate m 0)),
      DecryptMessage = (\<lambda>h s. (SEC_E_OK, drop 16 s, 0)),
      ImpersonateSecurityContext = (\<lambda>h. SEC_E_OK),
      RevertSecurityContext = (\<lambda>h. SEC_E_OK),
      base64_encode = Some,
      base64_decode = (\<lambda>s. s),
      malloc_ok = (\<lambda>v. True)\<rparr>"

text \<open>A context after init and before the first step, and one after the handshake.\<close>

definition credentialed :: sspi_client_state where
  "credentialed =
     \<lparr>cred = 3, ctx = 0, spn = Some (cstr ''service/host''), response = None,
      username = None, flags = 0, haveCred = True, haveCtx = False,
      qop = SECQOP_WRAP_NO_ENCRYPT\<rparr>"

definition established :: sspi_client_state where
  "established =
     \<lparr>cred = 3, ctx = 7, spn = Some (cstr ''service/host''), response = Some (cstr ''T3''),
      username = Some (cstr ''u@REALM''), flags = 0, haveCred = True, haveCtx = True,
      qop = SECQOP_WRAP_NO_ENCRYPT\<rparr>"

definition established_server :: sspi_server_state where
  "established_server =
     \<lparr>srv_cred = 4, srv_ctx = 9, srv_haveCred = True, srv_haveCtx = True,
      srv_response = None, srv_username = Some (cstr ''u@REALM''), srv_targetname = None\<rparr>"

text \<open>
  A stand-in for \<^verbatim>\<open>UrlUnescapeW\<close> in the examples: \<^verbatim>\<open>%XX\<close> becomes the code unit
  with the hexadecimal code \<^verbatim>\<open>XX\<close>, everything else stays.
\<close>

definition hexval :: "WCHAR \<Rightarrow> nat option" where
  "hexval c =
     (if 48 \<le> c \<and> c \<le> 57 then Some (unat c - 48)
      else if 65 \<le> c \<and> c \<le> 70 then Some (unat c - 55)
      else if 97 \<le> c \<and> c \<le> 102 then Some (unat c - 87)
      else None)"

fun percent_decode :: "WCHAR list \<Rightarrow> WCHAR list" where
  "percent_decode (p # a # b # rest) =
     (case (p = 37, hexval a, hexval b) of
        (True, Some x, Some y) \<Rightarrow> of_nat (16 * x + y) # percent_decode rest
      | _ \<Rightarrow> p # percent_decode (a # b # rest))"
| "percent_decode xs = xs"

text \<open>
  The mock engine init acquires credentials for the user it is given and leaves a
  credentialed state.
\<close>

definition mock_host :: host where
  "mock_host =
     \<lparr>PyUnicode_AsWideChar = Some,
      MultiByteToWideChar = map ucast,
      GetLastError = 0,
      UrlUnescapeW = (\<lambda>s. (S_OK, percent_decode s)),
      PyCapsule_New_ok = True,
      auth_sspi_client_init =
        (\<lambda>c. \<lparr>ret = AUTH_GSS_COMPLETE, st = credentialed, raised = None,
               calls = [Call_AcquireCredentialsHandle (arg_user c)]\<rparr>)\<rparr>"

definition mock_args :: init_args where
  "mock_args =
     \<lparr>serviceobj = PyUnicode (wstr ''service@host''), principalobj = Py_None,
      gssflags = 0, userobj = Py_None, domainobj = Py_None, passwordobj = Py_None,
      mechoidobj = Py_None\<rparr>"

text \<open>
  A provider that refuses every call on a context (\<^verbatim>\<open>SEC_E_INVALID_HANDLE\<close>), and one
  that, like the mock, signs without encrypting, but needs no padding and sets the length
  of the padding buffer to 0.
\<close>

definition SEC_E_INVALID_HANDLE :: SECURITY_STATUS where
  "SEC_E_INVALID_HANDLE = -2146893055"

definition failing_env :: env where
  "failing_env =
     mock_env
       \<lparr>InitializeSecurityContext := (\<lambda>c old target req inbuf. (SEC_E_INVALID_HANDLE, 0, [])),
        EncryptMessage := (\<lambda>h q n d m. (SEC_E_INVALID_HANDLE, [], d, [])),
        DecryptMessage := (\<lambda>h s. (SEC_E_INVALID_HANDLE, [], 0)),
        ImpersonateSecurityContext := (\<lambda>h. SEC_E_INVALID_HANDLE),
        RevertSecurityContext := (\<lambda>h. SEC_E_INVALID_HANDLE)\<rparr>"

definition unpadded_env :: env where
  "unpadded_env =
     mock_env\<lparr>EncryptMessage := (\<lambda>h q n d m. (SEC_E_OK, replicate n 170, d, []))\<rparr>"

text \<open>
  What the provider returns to the call that \<^verbatim>\<open>auth_sspi_client_step\<close> makes on the
  state \<open>s\<close> with the challenge \<open>c\<close>: the status and the output token.
\<close>

definition step_provider_result ::
  "env \<Rightarrow> sspi_client_state \<Rightarrow> SEC_CHAR list \<Rightarrow> SECURITY_STATUS \<times> handle \<times> SEC_CHAR list" where
  "step_provider_result E s c =
     InitializeSecurityContext E (cred s)
       (if haveCtx s then Some (ctx s) else None) (spn s)
       (ISC_REQ_ALLOCATE_MEMORY OR flags s)
       (if haveCtx s then Some (ULONG_buffer (base64_decode E c)) else None)"

definition step_status :: "env \<Rightarrow> sspi_client_state \<Rightarrow> SEC_CHAR list \<Rightarrow> SECURITY_STATUS" where
  "step_status E s c = fst (step_provider_result E s c)"

definition step_output_token :: "env \<Rightarrow> sspi_client_state \<Rightarrow> SEC_CHAR list \<Rightarrow> SEC_CHAR list" where
  "step_output_token E s c = snd (snd (step_provider_result E s c))"

text \<open>The payload that \<^verbatim>\<open>auth_sspi_client_wrap\<close> is asked to protect.\<close>

definition wrap_payload :: "env \<Rightarrow> SEC_CHAR list \<Rightarrow> SEC_CHAR list option \<Rightarrow> SEC_CHAR list" where
  "wrap_payload E data user =
     (case user of Some u \<Rightarrow> [1, 0, 0, 0] @ u | None \<Rightarrow> base64_decode E data)"

text \<open>A password of \<open>2 ^ 32\<close> bytes, passed as a bytes object.\<close>

definition huge_password :: pyobj where
  "huge_password =
     PyBufferObject \<lparr>view_buf = Some (replicate 4294967296 65), view_len = 4294967296,
                     view_itemsize = 1, view_contiguous = True\<rparr>"

section \<open>Properties of the engine\<close>

subsection \<open>Destroy\<close>

lemma length_cstr: "length (cstr s) = length s"
  by (simp add: cstr_def)

lemma destroy_again:
  "destroy_sspi_client_state (fst (destroy_sspi_client_state s)) =
     (fst (destroy_sspi_client_state s), [])"
  by (simp add: destroy_sspi_client_state_def)

lemma destroy_times_destroyed:
  "destroy_times n (fst (destroy_sspi_client_state s)) = (fst (destroy_sspi_client_state s), [])"
  by (induction n) (simp_all add: destroy_again)

lemma destroy_times_Suc: "destroy_times (Suc n) s = destroy_sspi_client_state s"
proof -
  obtain s1 e1 where d: "destroy_sspi_client_state s = (s1, e1)"
    by (cases "destroy_sspi_client_state s")
  have "destroy_times n s1 = (s1, [])"
    using destroy_times_destroyed [of n s] d by simp
  with d show ?thesis by simp
qed

text \<open>
  C7. Destroy is idempotent. The first call releases the context handle (if present) and
  then the credential handle (if present), then frees the buffers that are present; a
  second call on the state it leaves releases and frees nothing and leaves the state as
  it is; so any number of calls, one after the other, releases each handle exactly as
  often as the first call does: once if it was present, never twice.
\<close>

theorem destroy_idempotent:
  "destroy_sspi_client_state (fst (destroy_sspi_client_state s)) =
     (fst (destroy_sspi_client_state s), [])
   \<and> snd (destroy_sspi_client_state s) =
       (if haveCtx s then [Call_DeleteSecurityContext (ctx s)] else []) @
       (if haveCred s then [Call_FreeCredentialsHandle (cred s)] else []) @
       (if spn s \<noteq> None then [Free_buffer ''spn''] else []) @
       (if response s \<noteq> None then [Free_buffer ''response''] else []) @
       (if username s \<noteq> None then [Free_buffer ''username''] else [])
   \<and> destroy_times (Suc n) s = destroy_sspi_client_state s"
proof (intro conjI)
  show "destroy_sspi_client_state (fst (destroy_sspi_client_state s)) =
          (fst (destroy_sspi_client_state s), [])"
    by (rule destroy_again)
  show "snd (destroy_sspi_client_state s) =
       (if haveCtx s then [Call_DeleteSecurityContext (ctx s)] else []) @
       (if haveCred s then [Call_FreeCredentialsHandle (cred s)] else []) @
       (if spn s \<noteq> None then [Free_buffer ''spn''] else []) @
       (if response s \<noteq> None then [Free_buffer ''response''] else []) @
       (if username s \<noteq> None then [Free_buffer ''username''] else [])"
    by (simp add: destroy_sspi_client_state_def)
  show "destroy_times (Suc n) s = destroy_sspi_client_state s"
    by (rule destroy_times_Suc)
qed

subsection \<open>The last response\<close>

lemma step_response:
  "response (st (auth_sspi_client_step E s c)) =
     (if (step_status E s c = SEC_E_OK \<or> step_status E s c = SEC_I_CONTINUE_NEEDED)
         \<and> step_output_token E s c \<noteq> []
      then base64_encode E (step_output_token E s c) else None)"
  by (simp add: auth_sspi_client_step_def step_status_def step_output_token_def
        step_provider_result_def Let_def split: prod.splits)

lemma unwrap_error_response:
  "ret (auth_sspi_client_unwrap E s c) = AUTH_GSS_ERROR \<Longrightarrow>
   response (st (auth_sspi_client_unwrap E s c)) = None"
  by (simp add: auth_sspi_client_unwrap_def Let_def AUTH_GSS_ERROR_def AUTH_GSS_COMPLETE_def
        split: prod.splits if_splits)

lemma wrap_error_response:
  "auth_sspi_client_wrap E s d u = Some out \<Longrightarrow> ret out = AUTH_GSS_ERROR \<Longrightarrow>
   response (st out) = None"
  by (auto simp add: auth_sspi_client_wrap_def Let_def AUTH_GSS_ERROR_def AUTH_GSS_COMPLETE_def
        split: prod.splits if_splits)

text \<open>
  C6. Step, wrap and unwrap discard the previous \<^verbatim>\<open>last_response\<close> before anything else:
  each call behaves exactly as it does on the state whose response is already none. So
  the response after a step is the encoding of the token of this call (when the provider
  accepted the call and the token is not empty) or none, whatever the response was before,
  also after an earlier successful step; and a failed wrap or unwrap leaves none.
\<close>

theorem last_response_replaced:
  "auth_sspi_client_step E s c = auth_sspi_client_step E (s\<lparr>response := None\<rparr>) c
   \<and> auth_sspi_client_unwrap E s c = auth_sspi_client_unwrap E (s\<lparr>response := None\<rparr>) c
   \<and> auth_sspi_client_wrap E s d u = auth_sspi_client_wrap E (s\<lparr>response := None\<rparr>) d u
   \<and> response (st (auth_sspi_client_step E s c)) =
       (if (step_status E s c = SEC_E_OK \<or> step_status E s c = SEC_I_CONTINUE_NEEDED)
           \<and> step_output_token E s c \<noteq> []
        then base64_encode E (step_output_token E s c) else None)
   \<and> (ret (auth_sspi_client_unwrap E s c) = AUTH_GSS_ERROR \<longrightarrow>
        response (st (auth_sspi_client_unwrap E s c)) = None)
   \<and> (\<forall>out. auth_sspi_client_wrap E s d u = Some out \<and> ret out = AUTH_GSS_ERROR \<longrightarrow>
          response (st out) = None)"
proof (intro conjI)
  show "auth_sspi_client_step E s c = auth_sspi_client_step E (s\<lparr>response := None\<rparr>) c"
    by (simp add: auth_sspi_client_step_def)
  show "auth_sspi_client_unwrap E s c = auth_sspi_client_unwrap E (s\<lparr>response := None\<rparr>) c"
    by (simp add: auth_sspi_client_unwrap_def)
  show "auth_sspi_client_wrap E s d u = auth_sspi_client_wrap E (s\<lparr>response := None\<rparr>) d u"
    by (simp add: auth_sspi_client_wrap_def)
  show "response (st (auth_sspi_client_step E s c)) =
       (if (step_status E s c = SEC_E_OK \<or> step_status E s c = SEC_I_CONTINUE_NEEDED)
           \<and> step_output_token E s c \<noteq> []
        then base64_encode E (step_output_token E s c) else None)"
    by (rule step_response)
  show "ret (auth_sspi_client_unwrap E s c) = AUTH_GSS_ERROR \<longrightarrow>
        response (st (auth_sspi_client_unwrap E s c)) = None"
    by (simp add: unwrap_error_response)
  show "\<forall>out. auth_sspi_client_wrap E s d u = Some out \<and> ret out = AUTH_GSS_ERROR \<longrightarrow>
          response (st out) = None"
    by (blast intro: wrap_error_response)
qed

lemma failing_unwrap:
  "auth_sspi_client_unwrap failing_env established c =
     \<lparr>ret = AUTH_GSS_ERROR, st = established\<lparr>response := None\<rparr>,
      raised = Some (KrbError ''DecryptMessage'' SEC_E_INVALID_HANDLE),
      calls = [Call_DecryptMessage 7 (ULONG_buffer c)]\<rparr>"
  by (simp add: auth_sspi_client_unwrap_def failing_env_def mock_env_def established_def
        SEC_E_INVALID_HANDLE_def SEC_E_OK_def)

lemma failing_wrap:
  "auth_sspi_client_wrap failing_env established d None =
     Some \<lparr>ret = AUTH_GSS_ERROR, st = established\<lparr>response := None\<rparr>,
      raised = Some (KrbError ''EncryptMessage'' SEC_E_INVALID_HANDLE),
      calls = [Call_QueryContextAttributes_SIZES 7,
               Call_EncryptMessage 7 SECQOP_WRAP_NO_ENCRYPT 16 (ULONG_buffer d) 8]\<rparr>"
  by (simp add: auth_sspi_client_wrap_def failing_env_def mock_env_def established_def
        SEC_E_INVALID_HANDLE_def SEC_E_OK_def mock_sizes_def Let_def)

text \<open>
  The established context holds a response; the provider then refuses to decrypt and to
  encrypt.
\<close>

theorem last_response_replaced_witness:
  "response established = Some (cstr ''T3'')
   \<and> ret (auth_sspi_client_unwrap failing_env established (cstr ''abc'')) = AUTH_GSS_ERROR
   \<and> response (st (auth_sspi_client_unwrap failing_env established (cstr ''abc''))) = None
   \<and> (\<exists>out. auth_sspi_client_wrap failing_env established (cstr ''abc'') None = Some out
         \<and> ret out = AUTH_GSS_ERROR \<and> response (st out) = None)"
proof -
  note T = last_response_replaced [of failing_env established "cstr ''abc''" "cstr ''abc''" None]
  have old: "response established = Some (cstr ''T3'')"
    by (simp add: established_def)
  have u: "ret (auth_sspi_client_unwrap failing_env established (cstr ''abc'')) = AUTH_GSS_ERROR"
    by (simp add: failing_unwrap)
  from T have "ret (auth_sspi_client_unwrap failing_env established (cstr ''abc'')) = AUTH_GSS_ERROR
      \<longrightarrow> response (st (auth_sspi_client_unwrap failing_env established (cstr ''abc''))) = None"
    by (elim conjE)
  with u have ur: "response (st (auth_sspi_client_unwrap failing_env established (cstr ''abc''))) = None"
    by (rule rev_mp)
  obtain out where w: "auth_sspi_client_wrap failing_env established (cstr ''abc'') None = Some out"
      and we: "ret out = AUTH_GSS_ERROR"
    by (simp add: failing_wrap)
  from T have "\<forall>out. auth_sspi_client_wrap failing_env established (cstr ''abc'') None = Some out
      \<and> ret out = AUTH_GSS_ERROR \<longrightarrow> response (st out) = None"
    by (elim conjE)
  with w we have "response (st out) = None"
    by blast
  with w we old u ur show ?thesis
    by blast
qed


subsection \<open>The state guard\<close>

text \<open>
  C4. On a context without a context handle (no step has succeeded yet) wrap and unwrap
  fail with the uninitialized-context error, call the provider not at all, and leave
  every field but the response as it was: the credential handle, the context handle and
  their two flags are not touched.
\<close>

theorem uninitialized_context_guard:
  assumes "\<not> haveCtx s"
  shows "auth_sspi_client_wrap E s data user =
           Some \<lparr>ret = AUTH_GSS_ERROR, st = s\<lparr>response := None\<rparr>,
                 raised = Some KrbError_uninitialized_context, calls = []\<rparr>
       \<and> auth_sspi_client_unwrap E s challenge =
           \<lparr>ret = AUTH_GSS_ERROR, st = s\<lparr>response := None\<rparr>,
            raised = Some KrbError_uninitialized_context, calls = []\<rparr>
       \<and> cred (s\<lparr>response := None\<rparr>) = cred s \<and> haveCred (s\<lparr>response := None\<rparr>) = haveCred s
       \<and> ctx (s\<lparr>response := None\<rparr>) = ctx s \<and> haveCtx (s\<lparr>response := None\<rparr>) = haveCtx s"
  using assms by (simp add: auth_sspi_client_wrap_def auth_sspi_client_unwrap_def)

theorem uninitialized_context_guard_witness:
  "\<not> haveCtx credentialed
   \<and> auth_sspi_client_wrap mock_env credentialed (cstr ''aGVsbG8='') None =
       Some \<lparr>ret = AUTH_GSS_ERROR, st = credentialed,
             raised = Some KrbError_uninitialized_context, calls = []\<rparr>
   \<and> auth_sspi_client_unwrap mock_env credentialed (cstr ''aGVsbG8='') =
       \<lparr>ret = AUTH_GSS_ERROR, st = credentialed,
        raised = Some KrbError_uninitialized_context, calls = []\<rparr>"
proof -
  have h: "\<not> haveCtx credentialed"
    by (simp add: credentialed_def)
  have r: "credentialed\<lparr>response := None\<rparr> = credentialed"
    by (simp add: credentialed_def)
  show ?thesis
    using h uninitialized_context_guard [OF h, of mock_env "cstr ''aGVsbG8=''" None "cstr ''aGVsbG8=''"]
    by (simp add: r)
qed

subsection \<open>Wrap\<close>

lemma ULONG_buffer_short: "length xs < 2 ^ 32 \<Longrightarrow> ULONG_buffer xs = xs"
  by (simp add: ULONG_buffer_def)

lemma mock_wrap_protect:
  "auth_sspi_client_wrap mock_env established (cstr ''hello'') None =
     Some \<lparr>ret = AUTH_GSS_COMPLETE,
           st = established\<lparr>response := Some (replicate 16 170 @ cstr ''hello'' @ replicate 8 0)\<rparr>,
           raised = None,
           calls = [Call_QueryContextAttributes_SIZES 7,
                    Call_EncryptMessage 7 SECQOP_WRAP_NO_ENCRYPT 16 (cstr ''hello'') 8]\<rparr>"
  by (simp add: auth_sspi_client_wrap_def mock_env_def established_def mock_sizes_def
        ULONG_buffer_def SEC_E_OK_def length_cstr Let_def)

text \<open>
  C1. \<^verbatim>\<open>sspi_client_wrap\<close> accepts \<^verbatim>\<open>protect\<close> and passes it on, but the engine's
  \<^verbatim>\<open>auth_sspi_client_wrap\<close> has no such parameter and always calls
  \<^verbatim>\<open>EncryptMessage\<close> with \<^verbatim>\<open>SECQOP_WRAP_NO_ENCRYPT\<close> (integrity only): on the
  established context, wrap with \<^verbatim>\<open>protect = 1\<close> makes the call with that quality of
  protection, and the result of wrap never depends on \<^verbatim>\<open>protect\<close>.
\<close>

theorem wrap_protect_ignored:
  "sspi_client_wrap mock_env (Capsule (Some established)) (cstr ''hello'') None 1 =
     Some \<lparr>retval = Some (PyInt AUTH_GSS_COMPLETE), pyerror = None,
           state_after =
             Some (established\<lparr>response := Some (replicate 16 170 @ cstr ''hello'' @ replicate 8 0)\<rparr>),
           events = [Call_QueryContextAttributes_SIZES 7,
                     Call_EncryptMessage 7 SECQOP_WRAP_NO_ENCRYPT 16 (cstr ''hello'') 8]\<rparr>
   \<and> sspi_client_wrap E pyctx data user protect = sspi_client_wrap E pyctx data user 0"
proof
  show "sspi_client_wrap mock_env (Capsule (Some established)) (cstr ''hello'') None 1 =
     Some \<lparr>retval = Some (PyInt AUTH_GSS_COMPLETE), pyerror = None,
           state_after =
             Some (established\<lparr>response := Some (replicate 16 170 @ cstr ''hello'' @ replicate 8 0)\<rparr>),
           events = [Call_QueryContextAttributes_SIZES 7,
                     Call_EncryptMessage 7 SECQOP_WRAP_NO_ENCRYPT 16 (cstr ''hello'') 8]\<rparr>"
    by (simp add: sspi_client_wrap_def mock_wrap_protect string_too_long_def ULONG_MAX_def
          length_cstr AUTH_GSS_COMPLETE_def AUTH_GSS_ERROR_def)
  show "sspi_client_wrap E pyctx data user protect = sspi_client_wrap E pyctx data user 0"
    by (simp add: sspi_client_wrap_def)
qed

lemma wrap_complete:
  assumes "auth_sspi_client_wrap E s data user = Some out" and "ret out = AUTH_GSS_COMPLETE"
  shows "\<exists>sizes buf0 buf1 buf2.
           QueryContextAttributes_SIZES E (ctx s) = (SEC_E_OK, sizes)
         \<and> EncryptMessage E (ctx s) SECQOP_WRAP_NO_ENCRYPT (unat (cbSecurityTrailer sizes))
             (ULONG_buffer (wrap_payload E data user)) (unat (cbBlockSize sizes)) =
             (SEC_E_OK, buf0, buf1, buf2)
         \<and> response (st out) = base64_encode E (buf0 @ buf1 @ buf2)"
  using assms
  by (auto simp add: auth_sspi_client_wrap_def wrap_payload_def Let_def AUTH_GSS_ERROR_def
        AUTH_GSS_COMPLETE_def split: prod.splits if_splits)

text \<open>
  C3 fails as stated: with the reported sizes 16 and 8 and a payload of 5 bytes, a provider
  that sets the padding buffer's length to 0 makes the encoded buffer 21 bytes long, not
  16 + 5 + 8.
\<close>

theorem wrap_framing_counterexample:
  "QueryContextAttributes_SIZES unpadded_env (ctx established) = (SEC_E_OK, mock_sizes)
   \<and> cbSecurityTrailer mock_sizes = 16 \<and> cbBlockSize mock_sizes = 8
   \<and> wrap_payload unpadded_env (cstr ''hello'') None = cstr ''hello''
   \<and> length (cstr ''hello'') = 5
   \<and> auth_sspi_client_wrap unpadded_env established (cstr ''hello'') None =
       Some \<lparr>ret = AUTH_GSS_COMPLETE,
             st = established\<lparr>response :=
                    base64_encode unpadded_env (replicate 16 170 @ cstr ''hello'')\<rparr>,
             raised = None,
             calls = [Call_QueryContextAttributes_SIZES 7,
                      Call_EncryptMessage 7 SECQOP_WRAP_NO_ENCRYPT 16 (cstr ''hello'') 8]\<rparr>
   \<and> length (replicate 16 (170 :: SEC_CHAR) @ cstr ''hello'') = 21
   \<and> (21 :: nat) \<noteq> 16 + 5 + 8"
  by (simp add: auth_sspi_client_wrap_def unpadded_env_def mock_env_def established_def
        mock_sizes_def ULONG_buffer_def SEC_E_OK_def length_cstr Let_def wrap_payload_def)

text \<open>
  C3, amended. After a successful wrap the response is the encoding of the token buffer,
  the data buffer and the padding buffer, in this order, as the provider's encrypt call
  returns them. The call was made with buffers of the reported trailer and block sizes
  around the payload: the decoded data when no user is given, \<open>[1, 0, 0, 0]\<close> and the
  user's bytes otherwise (as far as its length fits a \<^verbatim>\<open>ULONG\<close>). The length of the
  encoded buffer is the sum of the three lengths returned; it is trailer size + payload
  length + block size when the provider leaves the three lengths as they were passed.
\<close>

theorem wrap_framing:
  assumes "auth_sspi_client_wrap E s data user = Some out" and "ret out = AUTH_GSS_COMPLETE"
  shows "\<exists>sizes buf0 buf1 buf2.
           QueryContextAttributes_SIZES E (ctx s) = (SEC_E_OK, sizes)
         \<and> EncryptMessage E (ctx s) SECQOP_WRAP_NO_ENCRYPT (unat (cbSecurityTrailer sizes))
             (ULONG_buffer (wrap_payload E data user)) (unat (cbBlockSize sizes)) =
             (SEC_E_OK, buf0, buf1, buf2)
         \<and> response (st out) = base64_encode E (buf0 @ buf1 @ buf2)
         \<and> length (buf0 @ buf1 @ buf2) = length buf0 + length buf1 + length buf2
         \<and> (length buf0 = unat (cbSecurityTrailer sizes)
              \<and> length buf1 = length (wrap_payload E data user)
              \<and> length buf2 = unat (cbBlockSize sizes)
            \<longrightarrow> length (buf0 @ buf1 @ buf2) =
                  unat (cbSecurityTrailer sizes) + length (wrap_payload E data user)
                  + unat (cbBlockSize sizes))
         \<and> wrap_payload E data user =
             (case user of Some u \<Rightarrow> [1, 0, 0, 0] @ u | None \<Rightarrow> base64_decode E data)
         \<and> (length (wrap_payload E data user) < 2 ^ 32
            \<longrightarrow> ULONG_buffer (wrap_payload E data user) = wrap_payload E data user)"
proof -
  from wrap_complete [OF assms] obtain sizes buf0 buf1 buf2 where
    q: "QueryContextAttributes_SIZES E (ctx s) = (SEC_E_OK, sizes)" and
    e: "EncryptMessage E (ctx s) SECQOP_WRAP_NO_ENCRYPT (unat (cbSecurityTrailer sizes))
             (ULONG_buffer (wrap_payload E data user)) (unat (cbBlockSize sizes)) =
             (SEC_E_OK, buf0, buf1, buf2)" and
    r: "response (st out) = base64_encode E (buf0 @ buf1 @ buf2)"
    by blast
  have p: "wrap_payload E data user =
             (case user of Some u \<Rightarrow> [1, 0, 0, 0] @ u | None \<Rightarrow> base64_decode E data)"
    by (simp add: wrap_payload_def)
  have u: "length (wrap_payload E data user) < 2 ^ 32
            \<longrightarrow> ULONG_buffer (wrap_payload E data user) = wrap_payload E data user"
    by (simp add: ULONG_buffer_short)
  have l: "length (buf0 @ buf1 @ buf2) = length buf0 + length buf1 + length buf2"
    by simp
  from q e r l p u show ?thesis
    by (intro exI conjI) (assumption | simp)+
qed

lemma mock_wrap_user:
  "auth_sspi_client_wrap mock_env established (cstr '''') (Some (cstr ''bob'')) =
     Some \<lparr>ret = AUTH_GSS_COMPLETE,
           st = established\<lparr>response :=
                  Some (replicate 16 170 @ ([1, 0, 0, 0] @ cstr ''bob'') @ replicate 8 0)\<rparr>,
           raised = None,
           calls = [Call_QueryContextAttributes_SIZES 7,
                    Call_EncryptMessage 7 SECQOP_WRAP_NO_ENCRYPT 16 ([1, 0, 0, 0] @ cstr ''bob'') 8]\<rparr>"
  by (simp add: auth_sspi_client_wrap_def mock_env_def established_def mock_sizes_def
        ULONG_buffer_def SEC_E_OK_def length_cstr Let_def)

text \<open>The mock provider wraps the authorization message for the user \<^verbatim>\<open>bob\<close>.\<close>

theorem wrap_framing_witness:
  "(\<exists>out. auth_sspi_client_wrap mock_env established (cstr '''') (Some (cstr ''bob'')) = Some out
      \<and> ret out = AUTH_GSS_COMPLETE
      \<and> response (st out) =
          Some (replicate 16 170 @ ([1, 0, 0, 0] @ cstr ''bob'') @ replicate 8 0))
   \<and> length (replicate 16 (170 :: SEC_CHAR) @ ([1, 0, 0, 0] @ cstr ''bob'') @ replicate 8 0)
       = 16 + length ([1, 0, 0, 0 :: SEC_CHAR] @ cstr ''bob'') + 8"
proof -
  let ?out = "\<lparr>ret = AUTH_GSS_COMPLETE,
           st = established\<lparr>response :=
                  Some (replicate 16 170 @ ([1, 0, 0, 0] @ cstr ''bob'') @ replicate 8 0)\<rparr>,
           raised = None,
           calls = [Call_QueryContextAttributes_SIZES 7,
                    Call_EncryptMessage 7 SECQOP_WRAP_NO_ENCRYPT 16 ([1, 0, 0, 0] @ cstr ''bob'') 8]\<rparr>"
  have c: "ret ?out = AUTH_GSS_COMPLETE"
    by simp
  from wrap_framing [OF mock_wrap_user c] obtain sizes buf0 buf1 buf2 where
    q: "QueryContextAttributes_SIZES mock_env (ctx established) = (SEC_E_OK, sizes)" and
    e: "EncryptMessage mock_env (ctx established) SECQOP_WRAP_NO_ENCRYPT
          (unat (cbSecurityTrailer sizes))
          (ULONG_buffer (wrap_payload mock_env (cstr '''') (Some (cstr ''bob''))))
          (unat (cbBlockSize sizes)) = (SEC_E_OK, buf0, buf1, buf2)" and
    r: "response (st ?out) = base64_encode mock_env (buf0 @ buf1 @ buf2)"
    by blast
  from q have s: "sizes = mock_sizes"
    by (simp add: mock_env_def)
  from e s have b: "buf0 = replicate 16 170 \<and> buf1 = [1, 0, 0, 0] @ cstr ''bob''
      \<and> buf2 = replicate 8 0"
    by (simp add: mock_env_def mock_sizes_def wrap_payload_def ULONG_buffer_def length_cstr)
  from r b have "response (st ?out) =
      Some (replicate 16 170 @ ([1, 0, 0, 0] @ cstr ''bob'') @ replicate 8 0)"
    by (simp add: mock_env_def)
  with mock_wrap_user c show ?thesis
    by (simp add: length_cstr)
qed

subsection \<open>Unwrap and the quality of protection\<close>

text \<open>
  C5. \<^verbatim>\<open>auth_sspi_client_unwrap\<close> passes \<^verbatim>\<open>NULL\<close> for \<^verbatim>\<open>pfQOP\<close> and never writes
  \<^verbatim>\<open>state->qop\<close>, which \<^verbatim>\<open>sspi_client_response_conf\<close> reads. On the established
  context, whose \<^verbatim>\<open>qop\<close> holds \<^verbatim>\<open>SECQOP_WRAP_NO_ENCRYPT\<close>, the mock provider decrypts the
  token and reports the quality of protection 0 (confidentiality); unwrap succeeds, and
  the query still answers 0 (no confidentiality). Unwrap leaves \<^verbatim>\<open>qop\<close> as it was,
  whatever the provider reports.
\<close>

theorem unwrap_qop_not_stored:
  "DecryptMessage mock_env (ctx established) (cstr ''0123456789abcdefhello'') =
     (SEC_E_OK, cstr ''hello'', 0)
   \<and> (0 :: ULONG) \<noteq> SECQOP_WRAP_NO_ENCRYPT
   \<and> sspi_client_unwrap mock_env (Capsule (Some established)) (cstr ''0123456789abcdefhello'') =
       \<lparr>retval = Some (PyInt AUTH_GSS_COMPLETE), pyerror = None,
        state_after = Some (established\<lparr>response := Some (cstr ''hello'')\<rparr>),
        events = [Call_DecryptMessage 7 (cstr ''0123456789abcdefhello'')]\<rparr>
   \<and> sspi_client_response_conf (Capsule (Some (established\<lparr>response := Some (cstr ''hello'')\<rparr>))) =
       \<lparr>retval = Some (PyInt 0), pyerror = None,
        state_after = Some (established\<lparr>response := Some (cstr ''hello'')\<rparr>), events = []\<rparr>
   \<and> qop (st (auth_sspi_client_unwrap E s c)) = qop s"
proof (intro conjI)
  show "DecryptMessage mock_env (ctx established) (cstr ''0123456789abcdefhello'') =
     (SEC_E_OK, cstr ''hello'', 0)"
    by (simp add: mock_env_def cstr_def)
  show "(0 :: ULONG) \<noteq> SECQOP_WRAP_NO_ENCRYPT"
    by (simp add: SECQOP_WRAP_NO_ENCRYPT_def)
  show "sspi_client_unwrap mock_env (Capsule (Some established)) (cstr ''0123456789abcdefhello'') =
       \<lparr>retval = Some (PyInt AUTH_GSS_COMPLETE), pyerror = None,
        state_after = Some (established\<lparr>response := Some (cstr ''hello'')\<rparr>),
        events = [Call_DecryptMessage 7 (cstr ''0123456789abcdefhello'')]\<rparr>"
    by (simp add: sspi_client_unwrap_def auth_sspi_client_unwrap_def mock_env_def
          established_def ULONG_buffer_def SEC_E_OK_def length_cstr string_too_long_def
          ULONG_MAX_def AUTH_GSS_COMPLETE_def AUTH_GSS_ERROR_def)
       (simp add: cstr_def)
  show "sspi_client_response_conf (Capsule (Some (established\<lparr>response := Some (cstr ''hello'')\<rparr>))) =
       \<lparr>retval = Some (PyInt 0), pyerror = None,
        state_after = Some (established\<lparr>response := Some (cstr ''hello'')\<rparr>), events = []\<rparr>"
    by (simp add: sspi_client_response_conf_def established_def)
  show "qop (st (auth_sspi_client_unwrap E s c)) = qop s"
    by (simp add: auth_sspi_client_unwrap_def Let_def split: prod.splits)
qed

section \<open>Properties of the binding\<close>

subsection \<open>Impersonate and revert\<close>

text \<open>
  C9. When the provider refuses the call, the engine (as the spec describes it) sets the
  provider error and reports \<^verbatim>\<open>AUTH_GSS_ERROR\<close>; \<^verbatim>\<open>sspi_server_impersonate\<close> and
  \<^verbatim>\<open>sspi_server_revert\<close> then return that integer as an ordinary result instead of
  \<^verbatim>\<open>NULL\<close>, where \<^verbatim>\<open>sspi_client_unwrap\<close> (like every other function of the binding)
  returns \<^verbatim>\<open>NULL\<close> on \<^verbatim>\<open>AUTH_GSS_ERROR\<close>.
\<close>

theorem server_impersonate_revert_return_error_code:
  "sspi_server_impersonate failing_env (Server_capsule (Some established_server)) =
     \<lparr>retval = Some (PyInt AUTH_GSS_ERROR),
      pyerror = Some (KrbError ''ImpersonateSecurityContext'' SEC_E_INVALID_HANDLE),
      state_after = Some established_server, events = [Call_ImpersonateSecurityContext 9]\<rparr>
   \<and> sspi_server_revert failing_env (Server_capsule (Some established_server)) =
     \<lparr>retval = Some (PyInt AUTH_GSS_ERROR),
      pyerror = Some (KrbError ''RevertSecurityContext'' SEC_E_INVALID_HANDLE),
      state_after = Some established_server, events = [Call_RevertSecurityContext 9]\<rparr>
   \<and> sspi_client_unwrap failing_env (Capsule (Some established)) (cstr ''abc'') =
     \<lparr>retval = None,
      pyerror = Some (KrbError ''DecryptMessage'' SEC_E_INVALID_HANDLE),
      state_after = Some (established\<lparr>response := None\<rparr>),
      events = [Call_DecryptMessage 7 (cstr ''abc'')]\<rparr>"
proof (intro conjI)
  show "sspi_server_impersonate failing_env (Server_capsule (Some established_server)) =
     \<lparr>retval = Some (PyInt AUTH_GSS_ERROR),
      pyerror = Some (KrbError ''ImpersonateSecurityContext'' SEC_E_INVALID_HANDLE),
      state_after = Some established_server, events = [Call_ImpersonateSecurityContext 9]\<rparr>"
    by (simp add: sspi_server_impersonate_def auth_sspi_server_impersonate_def failing_env_def
          mock_env_def established_server_def SEC_E_INVALID_HANDLE_def SEC_E_OK_def
          AUTH_GSS_ERROR_def)
  show "sspi_server_revert failing_env (Server_capsule (Some established_server)) =
     \<lparr>retval = Some (PyInt AUTH_GSS_ERROR),
      pyerror = Some (KrbError ''RevertSecurityContext'' SEC_E_INVALID_HANDLE),
      state_after = Some established_server, events = [Call_RevertSecurityContext 9]\<rparr>"
    by (simp add: sspi_server_revert_def auth_sspi_server_revert_def failing_env_def
          mock_env_def established_server_def SEC_E_INVALID_HANDLE_def SEC_E_OK_def
          AUTH_GSS_ERROR_def)
  show "sspi_client_unwrap failing_env (Capsule (Some established)) (cstr ''abc'') =
     \<lparr>retval = None,
      pyerror = Some (KrbError ''DecryptMessage'' SEC_E_INVALID_HANDLE),
      state_after = Some (established\<lparr>response := None\<rparr>),
      events = [Call_DecryptMessage 7 (cstr ''abc'')]\<rparr>"
    by (simp add: sspi_client_unwrap_def failing_unwrap string_too_long_def ULONG_MAX_def
          length_cstr ULONG_buffer_def)
qed

subsection \<open>Client init\<close>

text \<open>
  C10. With a negative \<^verbatim>\<open>gssflags\<close>, \<^verbatim>\<open>sspi_client_init\<close> returns \<^verbatim>\<open>NULL\<close> with
  \<^verbatim>\<open>ValueError("gss_flags must be >= 0")\<close> before anything else happens: no argument
  is converted, no state is allocated, no context object is created, the engine and the
  provider are not called.
\<close>

theorem negative_gssflags_rejected:
  assumes "sint (gssflags a) < 0"
  shows "sspi_client_init E H a =
           \<lparr>retval = None, pyerror = Some (ValueError ''gss_flags must be >= 0''),
            state_after = None, events = []\<rparr>"
  using assms by (simp add: sspi_client_init_def init_failure_def)

theorem negative_gssflags_rejected_witness:
  "sint (gssflags (mock_args\<lparr>gssflags := - 1\<rparr>)) < 0
   \<and> sspi_client_init mock_env mock_host (mock_args\<lparr>gssflags := - 1\<rparr>) =
       \<lparr>retval = None, pyerror = Some (ValueError ''gss_flags must be >= 0''),
        state_after = None, events = []\<rparr>"
proof -
  have h: "sint (gssflags (mock_args\<lparr>gssflags := - 1\<rparr>)) < 0"
    by simp
  from h negative_gssflags_rejected [OF h, of mock_env mock_host] show ?thesis
    by simp
qed

lemma wcs_no_nul: "0 \<notin> set w \<Longrightarrow> wcs w = w"
  by (auto simp add: wcs_def)

lemma wcstok_s_token:
  assumes "t \<noteq> []" and "d \<notin> set t"
  shows "wcstok_s (t @ d # r) d = Some (t, r)"
proof -
  from assms obtain x xs where t: "t = x # xs" and x: "x \<noteq> d"
    by (cases t) auto
  have tw: "takeWhile (\<lambda>c. c \<noteq> d) (t @ d # r) = t"
    using assms(2) by (auto simp add: takeWhile_tail)
  have dw: "dropWhile (\<lambda>c. c \<noteq> d) (t @ d # r) = d # r"
    using assms(2) by (auto simp add: dropWhile_append3)
  have st: "dropWhile (\<lambda>c. c = d) (t @ d # r) = t @ d # r"
    using t x by simp
  show ?thesis
    using assms(1) by (simp add: wcstok_s_def st tw dw)
qed

lemma wcstok_s_last:
  assumes "t \<noteq> []" and "d \<notin> set t"
  shows "wcstok_s t d = Some (t, [])"
proof -
  from assms obtain x xs where t: "t = x # xs" and x: "x \<noteq> d"
    by (cases t) auto
  have tw: "takeWhile (\<lambda>c. c \<noteq> d) t = t"
    using assms(2) by auto
  have dw: "dropWhile (\<lambda>c. c \<noteq> d) t = []"
    using assms(2) by auto
  have st: "dropWhile (\<lambda>c. c = d) t = t"
    using t x by simp
  show ?thesis
    using assms(1) by (simp add: wcstok_s_def st tw dw)
qed

lemma wcstok_s_second:
  assumes "t \<noteq> []" and "d \<notin> set t" and "rest = [] \<or> hd rest = d"
  shows "\<exists>next. wcstok_s (t @ rest) d = Some (t, next)"
proof (cases rest)
  case Nil
  with wcstok_s_last [OF assms(1,2)] show ?thesis by simp
next
  case (Cons y ys)
  with assms(3) have "rest = d # ys" by simp
  with wcstok_s_token [OF assms(1,2), of ys] show ?thesis by simp
qed

text \<open>
  C2 fails as stated: for the principal \<^verbatim>\<open>alice:pa:ss\<close> (no user given) the engine is
  called with the user \<^verbatim>\<open>alice\<close> and the password \<^verbatim>\<open>pa\<close>, not \<^verbatim>\<open>pa:ss\<close>: the second
  \<^verbatim>\<open>wcstok_s\<close> ends the password at the next colon.
\<close>

theorem principal_split_counterexample:
  "sspi_client_init mock_env mock_host
     (mock_args\<lparr>principalobj := PyUnicode (wstr ''alice:pa:ss'')\<rparr>) =
     \<lparr>retval = Some (PyTuple_result_context AUTH_GSS_COMPLETE credentialed), pyerror = None,
      state_after = Some credentialed,
      events =
        [Convert_argument ''service'', Convert_argument ''principal'', Convert_argument ''user'',
         Convert_argument ''domain'', Convert_argument ''password'',
         Allocate_state, New_context_object,
         Call_auth_sspi_client_init
           \<lparr>arg_service = Some (wstr ''service@host''), arg_flags = 0,
            arg_user = Some (wstr ''alice''), arg_ulen = 5,
            arg_domain = None, arg_dlen = 0,
            arg_password = Some (wstr ''pa''), arg_plen = 2,
            arg_mechoid = GSS_MECH_OID_KRB5\<rparr>,
         Call_AcquireCredentialsHandle (Some (wstr ''alice''))]\<rparr>
   \<and> wstr ''pa'' \<noteq> wstr ''pa:ss''"
  by (simp add: sspi_client_init_def init_context_def mock_args_def StringObject_AsWCHAR_def
        BufferObject_AsWCHAR_def py_unicode_to_wchar_def string_too_long_def ULONG_MAX_def
        principal_credentials_def unescape_credentials_def wcs_def wcslen_def wstr_def
        colon_def wcstok_s_def mock_env_def mock_host_def S_OK_def hexval_def
        AUTH_GSS_COMPLETE_def AUTH_GSS_ERROR_def)

text \<open>
  C2, amended. With no user and a principal that starts with a non-empty name \<open>u\<close>
  without a colon, followed by a colon and a non-empty \<open>p\<close> without a colon that runs to
  the end of the principal or to the next colon: the user is \<open>u\<close> and the password is
  \<open>p\<close>, both URL-unescaped, and the domain and the password supplied before are
  discarded (the two copies can be allocated and the two unescapes succeed).
\<close>

theorem principal_split:
  assumes u: "u \<noteq> []" "colon \<notin> set u"
    and p: "p \<noteq> []" "colon \<notin> set p"
    and rest: "rest = [] \<or> hd rest = colon"
    and nul: "0 \<notin> set (u @ colon # p @ rest)"
    and alloc: "malloc_ok E ''_wcsdup user''" "malloc_ok E ''_wcsdup password''"
    and unesc: "UrlUnescapeW H u = (S_OK, u')" "UrlUnescapeW H p = (S_OK, p')"
  shows "principal_credentials E H (Some (u @ colon # p @ rest))
           (None, ulen, domain, dlen, password, plen) =
         Inr (Some (wcs u'), wcslen u', None, dlen, Some (wcs p'), wcslen p')"
proof -
  have w: "wcs (u @ colon # p @ rest) = u @ colon # p @ rest"
    using nul by (rule wcs_no_nul)
  have c: "colon \<in> set (u @ colon # p @ rest)"
    by simp
  have t1: "wcstok_s (u @ colon # p @ rest) colon = Some (u, p @ rest)"
    using u by (rule wcstok_s_token)
  obtain next2 where t2: "wcstok_s (p @ rest) colon = Some (p, next2)"
    using wcstok_s_second [OF p rest] by blast
  show ?thesis
    unfolding principal_credentials_def
    using alloc unesc by (simp add: w c t1 t2 unescape_credentials_def del: set_append)
qed

theorem principal_split_witness:
  "principal_credentials mock_env mock_host (Some (wstr ''alice:pa%3Ass:x''))
     (None, 0, Some (wstr ''DOMAIN''), 6, Some (wstr ''old''), 3) =
   Inr (Some (wstr ''alice''), 5, None, 6, Some (wstr ''pa:ss''), 5)"
proof -
  have "principal_credentials mock_env mock_host
          (Some (wstr ''alice'' @ colon # wstr ''pa%3Ass'' @ wstr '':x''))
          (None, 0, Some (wstr ''DOMAIN''), 6, Some (wstr ''old''), 3) =
        Inr (Some (wcs (wstr ''alice'')), wcslen (wstr ''alice''), None, 6,
             Some (wcs (wstr ''pa:ss'')), wcslen (wstr ''pa:ss''))"
    by (rule principal_split)
       (simp_all add: wstr_def colon_def mock_env_def mock_host_def S_OK_def hexval_def)
  then show ?thesis
    by (simp add: wstr_def colon_def wcs_def wcslen_def)
qed

lemma StringObject_AsWCHAR_length:
  "StringObject_AsWCHAR E H var (PyUnicode w) argnum allow_none = Inr (buf, len) \<Longrightarrow>
   len = length w"
  by (auto simp add: StringObject_AsWCHAR_def py_unicode_to_wchar_def Let_def
        split: if_splits option.splits)

text \<open>
  C8 fails as stated: a password of \<open>2 ^ 32\<close> bytes passed as a bytes object is longer
  than \<^verbatim>\<open>ULONG_MAX\<close>, and init fails in the conversion with
  \<^verbatim>\<open>ValueError("buffer too large")\<close>, which does not name the field. And with a
  user of \<open>2 ^ 32\<close> characters and a domain that is not a string, init fails with the
  \<^verbatim>\<open>TypeError\<close> of the domain, before any length is checked.
\<close>

theorem too_long_counterexample:
  "huge_password =
     PyBufferObject \<lparr>view_buf = Some (replicate 4294967296 65), view_len = 4294967296,
                     view_itemsize = 1, view_contiguous = True\<rparr>
   \<and> ULONG_MAX < length (replicate 4294967296 (65 :: SEC_CHAR))
   \<and> sspi_client_init mock_env mock_host (mock_args\<lparr>passwordobj := huge_password\<rparr>) =
       \<lparr>retval = None, pyerror = Some (ValueError ''buffer too large''), state_after = None,
        events = [Convert_argument ''service'', Convert_argument ''principal'',
                  Convert_argument ''user'', Convert_argument ''domain'',
                  Convert_argument ''password'']\<rparr>
   \<and> ValueError ''buffer too large'' \<noteq> ValueError ''password too large''
   \<and> ULONG_MAX < length (replicate 4294967296 (97 :: WCHAR))
   \<and> sspi_client_init mock_env mock_host
       (mock_args\<lparr>userobj := PyUnicode (replicate 4294967296 97), domainobj := PyOther ''int''\<rparr>) =
       \<lparr>retval = None,
        pyerror = Some (TypeError ''argument 5 must be str or None, not int''),
        state_after = None,
        events = [Convert_argument ''service'', Convert_argument ''principal'',
                  Convert_argument ''user'', Convert_argument ''domain'']\<rparr>"
  by (simp add: sspi_client_init_def init_failure_def mock_args_def StringObject_AsWCHAR_def
        BufferObject_AsWCHAR_def py_unicode_to_wchar_def py_buffer_to_wchar_def wcs_def
        wcslen_def wstr_def mock_env_def mock_host_def INT_MAX_def huge_password_def
        ULONG_MAX_def argument_type_error_def)


text \<open>
  C8, amended. When the five arguments convert and the converted user, domain or
  password is longer than \<^verbatim>\<open>ULONG_MAX\<close>, init fails with \<^verbatim>\<open>ValueError\<close> naming the
  first such field in the order user, domain, password; up to then only the five
  conversions have happened: no state is allocated, the engine and the provider are not
  called.
\<close>

theorem too_long_rejected:
  assumes flags: "0 \<le> sint (gssflags a)"
    and conv:
      "StringObject_AsWCHAR E H ''service'' (serviceobj a) 1 False = Inr (service, slen)"
      "BufferObject_AsWCHAR E H ''principal'' (principalobj a) = Inr (principal0, len)"
      "StringObject_AsWCHAR E H ''user'' (userobj a) 4 True = Inr (user, ulen)"
      "StringObject_AsWCHAR E H ''domain'' (domainobj a) 5 True = Inr (domain, dlen)"
      "BufferObject_AsWCHAR E H ''password'' (passwordobj a) = Inr (password, plen)"
    and size: "ulen < 2 ^ 64" "dlen < 2 ^ 64" "plen < 2 ^ 64"
    and long: "ULONG_MAX < ulen \<or> ULONG_MAX < dlen \<or> ULONG_MAX < plen"
  shows "sspi_client_init E H a =
           \<lparr>retval = None,
            pyerror = Some (ValueError
              ((if ULONG_MAX < ulen then ''user''
                else if ULONG_MAX < dlen then ''domain'' else ''password'') @ '' too large'')),
            state_after = None,
            events = [Convert_argument ''service'', Convert_argument ''principal'',
                      Convert_argument ''user'', Convert_argument ''domain'',
                      Convert_argument ''password'']\<rparr>"
proof -
  have u: "string_too_long ''user'' ulen =
             (if ULONG_MAX < ulen then Some (ValueError ''user too large'') else None)"
    using size(1) by (simp add: string_too_long_def)
  have d: "string_too_long ''domain'' dlen =
             (if ULONG_MAX < dlen then Some (ValueError ''domain too large'') else None)"
    using size(2) by (simp add: string_too_long_def)
  have p: "string_too_long ''password'' plen =
             (if ULONG_MAX < plen then Some (ValueError ''password too large'') else None)"
    using size(3) by (simp add: string_too_long_def)
  from flags have f: "\<not> sint (gssflags a) < 0"
    by simp
  from conv(1) have s:
    "StringObject_AsWCHAR E H ''service'' (serviceobj a) (Suc 0) False = Inr (service, slen)"
    by simp
  show ?thesis
    using long by (auto simp add: sspi_client_init_def Let_def f s conv u d p init_failure_def)
qed

theorem too_long_rejected_witness:
  "StringObject_AsWCHAR mock_env mock_host ''user'' (PyUnicode (replicate 4294967296 97)) 4 True =
     Inr (Some (replicate 4294967296 97), 4294967296)
   \<and> ULONG_MAX < 4294967296
   \<and> sspi_client_init mock_env mock_host
       (mock_args\<lparr>userobj := PyUnicode (replicate 4294967296 97)\<rparr>) =
       \<lparr>retval = None, pyerror = Some (ValueError ''user too large''), state_after = None,
        events = [Convert_argument ''service'', Convert_argument ''principal'',
                  Convert_argument ''user'', Convert_argument ''domain'',
                  Convert_argument ''password'']\<rparr>"
proof -
  let ?a = "mock_args\<lparr>userobj := PyUnicode (replicate 4294967296 97)\<rparr>"
  have flags: "0 \<le> sint (gssflags ?a)"
    by (simp add: mock_args_def)
  have c1: "StringObject_AsWCHAR mock_env mock_host ''service'' (serviceobj ?a) 1 False =
              Inr (Some (wstr ''service@host''), 12)"
    by (simp add: mock_args_def StringObject_AsWCHAR_def py_unicode_to_wchar_def mock_env_def
          mock_host_def wcslen_def wcs_def wstr_def)
  have c2: "BufferObject_AsWCHAR mock_env mock_host ''principal'' (principalobj ?a) = Inr (None, 0)"
    by (simp add: mock_args_def BufferObject_AsWCHAR_def)
  have c3: "StringObject_AsWCHAR mock_env mock_host ''user'' (userobj ?a) 4 True =
              Inr (Some (replicate 4294967296 97), 4294967296)"
    by (simp add: StringObject_AsWCHAR_def py_unicode_to_wchar_def mock_env_def
          mock_host_def wcslen_def wcs_def)
  have c4: "StringObject_AsWCHAR mock_env mock_host ''domain'' (domainobj ?a) 5 True = Inr (None, 0)"
    by (simp add: mock_args_def StringObject_AsWCHAR_def)
  have c5: "BufferObject_AsWCHAR mock_env mock_host ''password'' (passwordobj ?a) = Inr (None, 0)"
    by (simp add: mock_args_def BufferObject_AsWCHAR_def)
  have long: "ULONG_MAX < (4294967296 :: nat) \<or> ULONG_MAX < (0 :: nat) \<or> ULONG_MAX < (0 :: nat)"
    by (simp add: ULONG_MAX_def)
  have "sspi_client_init mock_env mock_host ?a =
           \<lparr>retval = None,
            pyerror = Some (ValueError
              ((if ULONG_MAX < (4294967296 :: nat) then ''user''
                else if ULONG_MAX < (0 :: nat) then ''domain'' else ''password'') @ '' too large'')),
            state_after = None,
            events = [Convert_argument ''service'', Convert_argument ''principal'',
                      Convert_argument ''user'', Convert_argument ''domain'',
                      Convert_argument ''password'']\<rparr>"
    by (rule too_long_rejected [OF flags c1 c2 c3 c4 c5 _ _ _ long]) simp_all
  with c3 show ?thesis
    by (simp add: ULONG_MAX_def)
qed

end
